theory Spec2Isabelle
  imports Complex_Main
begin

section \<open>Python values, errors and strings\<close>

text \<open>
  Exceptions of the Python source are values of type \<open>error\<close>; a function that may raise
  returns \<open>error + 'a\<close> with \<open>Inl\<close> for the raised exception. \<open>NotModelled\<close> marks an
  input on which the library behaviour (pandas) is outside this embedding; no theorem below
  draws a conclusion from it.
\<close>

datatype error =
    ValueError string
  | KeyError string
  | IndexError
  | AssertionError
  | AttributeError
  | TypeError
  | NotModelled string

text \<open>A Python scalar as the recipe configuration delivers it (JSON number or string).\<close>

datatype pyval = PyInt int | PyStr string

definition digit_char :: "nat \<Rightarrow> char" where
  "digit_char d = ''0123456789'' ! d"

text \<open>The position of the first occurrence of an element, as Python's \<open>list.index\<close> finds it.\<close>

fun index_of :: "'a \<Rightarrow> 'a list \<Rightarrow> nat option" where
  "index_of c [] = None"
| "index_of c (x # xs) = (if c = x then Some 0 else map_option Suc (index_of c xs))"

definition digit_value :: "char \<Rightarrow> nat option" where
  "digit_value c = index_of c ''0123456789''"

fun str_nat :: "nat \<Rightarrow> string" where
  "str_nat n = (if n < 10 then [digit_char n] else str_nat (n div 10) @ [digit_char (n mod 10)])"

declare str_nat.simps [simp del]

definition str_int :: "int \<Rightarrow> string" where
  "str_int i = (if i < 0 then CHR ''-'' # str_nat (nat (- i)) else str_nat (nat i))"

text \<open>\<open>"{}".format(v)\<close> for a configuration scalar.\<close>

fun format_pyval :: "pyval \<Rightarrow> string" where
  "format_pyval (PyInt i) = str_int i"
| "format_pyval (PyStr s) = s"

section \<open>Data model\<close>

text \<open>
  A dataframe cell. Timestamps are nanoseconds since the epoch, as pandas stores them;
  a timezone-aware timestamp carries the UTC instant and the UTC offset of its zone.
\<close>

datatype cell = Time int | TimeTz int int | Float real | Str string | NaN

record dataframe =
  columns :: "string list"
  rows :: "cell list list"

text \<open>
  The per-series dictionary built by \<open>GluonDataset\<close>; optional keys are options.
  \<open>feat_dynamic_real\<close> has one row per feature and one column per time step.
\<close>

record timeseries =
  ts_start :: cell
  ts_target :: "cell list"
  ts_target_name :: string
  ts_time_column_name :: string
  ts_feat_dynamic_real :: "cell list list option"
  ts_feat_dynamic_real_columns_names :: "string list option"
  ts_identifiers :: "(string \<times> cell) list option"

record ListDataset =
  list_data :: "timeseries list"
  freq :: string

text \<open>The opaque GluonTS predictor: only its trained horizon is read here.\<close>

record predictor =
  predictor_prediction_length :: int

record TrainedModel =
  tm_predictor :: predictor
  tm_gluon_dataset :: ListDataset
  tm_prediction_length :: int
  tm_quantiles :: "real list"
  tm_include_history :: bool
  tm_time_column_name :: "string option"
  tm_identifiers_columns :: "string list option"
  tm_forecasts_df :: "dataframe option"

section \<open>TrainedModel: construction\<close>

definition horizon_message :: "int \<Rightarrow> string" where
  "horizon_message n =
     ''Please choose a forecasting horizon lower or equal to the one chosen when training: '' @ str_int n"

text \<open>\<open>TrainedModel._check\<close>\<close>

definition TrainedModel_check :: "TrainedModel \<Rightarrow> error + unit" where
  "TrainedModel_check self =
     (if predictor_prediction_length (tm_predictor self) < tm_prediction_length self
      then Inl (ValueError (horizon_message (predictor_prediction_length (tm_predictor self))))
      else Inr ())"

text \<open>The field assignments of \<open>TrainedModel.__init__\<close>, before the call of \<open>_check\<close>.\<close>

definition TrainedModel_fields ::
  "predictor \<Rightarrow> ListDataset \<Rightarrow> int \<Rightarrow> real list \<Rightarrow> bool \<Rightarrow> TrainedModel" where
  "TrainedModel_fields p ds pl qs ih =
     \<lparr> tm_predictor = p,
       tm_gluon_dataset = ds,
       tm_prediction_length = (if pl = - 1 then predictor_prediction_length p else pl),
       tm_quantiles = qs,
       tm_include_history = ih,
       tm_time_column_name = None,
       tm_identifiers_columns = None,
       tm_forecasts_df = None \<rparr>"

text \<open>\<open>TrainedModel.__init__\<close>: the object exists only when \<open>_check\<close> did not raise.\<close>

definition TrainedModel_init ::
  "predictor \<Rightarrow> ListDataset \<Rightarrow> int \<Rightarrow> real list \<Rightarrow> bool \<Rightarrow> error + TrainedModel" where
  "TrainedModel_init p ds pl qs ih =
     (let self = TrainedModel_fields p ds pl qs ih
      in case TrainedModel_check self of Inl e \<Rightarrow> Inl e | Inr _ \<Rightarrow> Inr self)"

section \<open>Consistency of external features\<close>

text \<open>A Dataiku dataset handle: only the column names of its schema are read.\<close>

record dku_dataset =
  read_schema :: "string list"

text \<open>Python's \<open>repr\<close> of a list of plain strings (no quote or escape characters inside).\<close>

fun join_repr :: "string list \<Rightarrow> string" where
  "join_repr [] = []"
| "join_repr [s] = [CHR 0x27] @ s @ [CHR 0x27]"
| "join_repr (s # t # ss) = [CHR 0x27] @ s @ [CHR 0x27] @ '', '' @ join_repr (t # ss)"

definition repr_list :: "string list \<Rightarrow> string" where
  "repr_list ss = ''['' @ join_repr ss @ '']''"

definition external_features_future_dataset_schema_check ::
  "timeseries \<Rightarrow> dku_dataset \<Rightarrow> error + unit" where
  "external_features_future_dataset_schema_check train_data_sample external_features_future_dataset =
     (let external_features_future_columns = read_schema external_features_future_dataset
      in case ts_feat_dynamic_real_columns_names train_data_sample of
           None \<Rightarrow> Inl (KeyError ''feat_dynamic_real_columns_names'')
         | Some names \<Rightarrow>
             (let expected_columns =
                    [ts_time_column_name train_data_sample] @ names @
                    (case ts_identifiers train_data_sample of None \<Rightarrow> [] | Some ids \<Rightarrow> map fst ids)
              in if set external_features_future_columns \<noteq> set expected_columns
                 then Inl (ValueError
                   (''The dataset of future values of external features must contains exactly the following columns: ''
                      @ repr_list expected_columns))
                 else Inr ()))"

definition missing_future_message :: string where
  "missing_future_message = ''You must provide a dataset of future values of external features.''"

definition unused_future_message :: string where
  "unused_future_message =
     [CHR 0x0A] @
     ''            A dataset of future values of external features was provided, but no external features were used during training for the selected model.''
     @ [CHR 0x0A] @
     ''            Remove this dataset from the recipe inputs or select a model that used external features during training.''
     @ [CHR 0x0A] @ ''        ''"

text \<open>
  \<open>external_features_check\<close>; the optional dataset is \<open>None\<close> or a handle, and a handle
  is truthy.
\<close>

definition external_features_check :: "ListDataset \<Rightarrow> dku_dataset option \<Rightarrow> error + bool" where
  "external_features_check gluon_train_dataset external_features_future_dataset =
     (case list_data gluon_train_dataset of
        [] \<Rightarrow> Inl IndexError
      | train_data_sample # _ \<Rightarrow>
          (let trained_with_external_features =
                 (ts_feat_dynamic_real_columns_names train_data_sample \<noteq> None)
           in case external_features_future_dataset of
                Some d \<Rightarrow>
                  if trained_with_external_features
                  then (case external_features_future_dataset_schema_check train_data_sample d of
                          Inl e \<Rightarrow> Inl e
                        | Inr _ \<Rightarrow> Inr True)
                  else Inl (ValueError unused_future_message)
              | None \<Rightarrow>
                  if trained_with_external_features
                  then Inl (ValueError missing_future_message)
                  else Inr False))"

section \<open>Confidence interval of the forecast columns\<close>











section \<open>Calendar arithmetic and pandas frequencies\<close>

text \<open>
  The proleptic Gregorian calendar on day numbers (days since 1970-01-01), as pandas
  computes the fields of a timestamp. Months are 1..12, weekdays 0 (Monday) .. 6 (Sunday).
\<close>

definition ns_per_day :: int where
  "ns_per_day = 86400000000000"

definition is_leap_year :: "int \<Rightarrow> bool" where
  "is_leap_year y = (y mod 4 = 0 \<and> (y mod 100 \<noteq> 0 \<or> y mod 400 = 0))"

definition days_in_month :: "int \<Rightarrow> int \<Rightarrow> int" where
  "days_in_month y m =
     (if m = 2 then (if is_leap_year y then 29 else 28)
      else if m = 4 \<or> m = 6 \<or> m = 9 \<or> m = 11 then 30 else 31)"

definition days_from_civil :: "int \<Rightarrow> int \<Rightarrow> int \<Rightarrow> int" where
  "days_from_civil y m d =
     (let y' = (if m \<le> 2 then y - 1 else y);
          era = y' div 400;
          yoe = y' - era * 400;
          doy = (153 * (if 2 < m then m - 3 else m + 9) + 2) div 5 + d - 1;
          doe = yoe * 365 + yoe div 4 - yoe div 100 + doy
      in era * 146097 + doe - 719468)"

definition civil_from_days :: "int \<Rightarrow> int \<times> int \<times> int" where
  "civil_from_days z =
     (let z' = z + 719468;
          era = z' div 146097;
          doe = z' - era * 146097;
          yoe = (doe - doe div 1460 + doe div 36524 - doe div 146096) div 365;
          doy = doe - (365 * yoe + yoe div 4 - yoe div 100);
          mp = (5 * doy + 2) div 153;
          d = doy - (153 * mp + 2) div 5 + 1;
          m = (if mp < 10 then mp + 3 else mp - 9);
          y = yoe + era * 400
      in (if m \<le> 2 then y + 1 else y, m, d))"

definition weekday :: "int \<Rightarrow> int" where
  "weekday ts = (ts div ns_per_day + 3) mod 7"

text \<open>
  A parsed pandas frequency: a fixed stride in nanoseconds (\<open>Tick\<close>), or \<open>n\<close> steps of an
  anchored calendar offset: weeks ending on Sunday (\<open>W\<close>), month ends (\<open>M\<close>), year ends
  (\<open>Y\<close>).
\<close>

datatype offset = Tick int | Week int | MonthEnd int | YearEnd int

definition tick_units :: "(string \<times> int) list" where
  "tick_units =
     [(''N'', 1), (''U'', 1000), (''us'', 1000), (''L'', 1000000), (''ms'', 1000000),
      (''S'', 1000000000), (''T'', 60000000000), (''min'', 60000000000),
      (''H'', 3600000000000), (''D'', 86400000000000)]"

fun parse_digits :: "nat \<Rightarrow> string \<Rightarrow> nat option" where
  "parse_digits acc [] = Some acc"
| "parse_digits acc (c # cs) =
     (case digit_value c of None \<Rightarrow> None | Some d \<Rightarrow> parse_digits (acc * 10 + d) cs)"

text \<open>The multiple written in front of the unit, when it is a plain positive number.\<close>

fun step_multiple :: "pyval \<Rightarrow> int option" where
  "step_multiple (PyInt i) = (if 0 < i then Some i else None)"
| "step_multiple (PyStr s) =
     (if s = [] then None
      else case parse_digits 0 s of
             None \<Rightarrow> None
           | Some n \<Rightarrow> if 0 < n then Some (int n) else None)"

text \<open>
  \<open>to_offset("{}{}".format(step, unit))\<close> for a plain positive step and the units above;
  every other frequency string is outside the embedding.
\<close>

definition to_offset :: "pyval \<Rightarrow> string \<Rightarrow> error + offset" where
  "to_offset step unit =
     (case step_multiple step of
        None \<Rightarrow> Inl (NotModelled (format_pyval step @ unit))
      | Some n \<Rightarrow>
          (case map_of tick_units unit of
             Some ns \<Rightarrow> Inr (Tick (n * ns))
           | None \<Rightarrow>
               if unit = ''W'' then Inr (Week n)
               else if unit = ''M'' then Inr (MonthEnd n)
               else if unit = ''Y'' \<or> unit = ''A'' then Inr (YearEnd n)
               else Inl (NotModelled (format_pyval step @ unit))))"

text \<open>\<open>shift_month(stamp, months, 'end')\<close>: the end of the month \<open>months\<close> away, same time of day.\<close>

definition shift_month_end :: "int \<Rightarrow> int \<Rightarrow> int \<Rightarrow> int \<Rightarrow> int" where
  "shift_month_end y m months tod =
     (let dy0 = (m + months) div 12;
          month0 = (m + months) mod 12;
          month = (if month0 = 0 then 12 else month0);
          dy = (if month0 = 0 then dy0 - 1 else dy0);
          year = y + dy
      in days_from_civil year month (days_in_month year month) * ns_per_day + tod)"

text \<open>\<open>timestamp + offset\<close>, following the \<open>_apply\<close> method of each pandas offset class.\<close>

fun apply_offset :: "offset \<Rightarrow> int \<Rightarrow> int" where
  "apply_offset (Tick d) ts = ts + d"
| "apply_offset (Week n) ts =
     (let otherDay = weekday ts
      in if otherDay \<noteq> 6
         then ts + ((6 - otherDay) mod 7) * ns_per_day
                + (if 0 < n then n - 1 else n) * 7 * ns_per_day
         else ts + n * 7 * ns_per_day)"
| "apply_offset (MonthEnd n) ts =
     (case civil_from_days (ts div ns_per_day) of
        (y, m, d) \<Rightarrow>
          (let compare_day = days_in_month y m;
               n' = (if 0 < n \<and> d < compare_day then n - 1
                     else if n \<le> 0 \<and> compare_day < d then n + 1 else n)
           in shift_month_end y m n' (ts mod ns_per_day)))"
| "apply_offset (YearEnd n) ts =
     (case civil_from_days (ts div ns_per_day) of
        (y, m, d) \<Rightarrow>
          (let months_since = m - 12;
               years = (if 0 < n
                        then (if months_since < 0 \<or> (months_since = 0 \<and> d < days_in_month y m)
                              then n - 1 else n)
                        else (if 0 < months_since \<or> (months_since = 0 \<and> days_in_month y m < d)
                              then n + 1 else n))
           in shift_month_end y m (years * 12 + (12 - m)) (ts mod ns_per_day)))"

fun is_on_offset :: "offset \<Rightarrow> int \<Rightarrow> bool" where
  "is_on_offset (Tick d) ts = True"
| "is_on_offset (Week n) ts = (weekday ts = 6)"
| "is_on_offset (MonthEnd n) ts =
     (case civil_from_days (ts div ns_per_day) of (y, m, d) \<Rightarrow> d = days_in_month y m)"
| "is_on_offset (YearEnd n) ts =
     (case civil_from_days (ts div ns_per_day) of (y, m, d) \<Rightarrow> m = 12 \<and> d = days_in_month y m)"

text \<open>The same offset class with another multiple.\<close>

fun with_n :: "offset \<Rightarrow> int \<Rightarrow> offset" where
  "with_n (Tick d) k = Tick d"
| "with_n (Week n) k = Week k"
| "with_n (MonthEnd n) k = MonthEnd k"
| "with_n (YearEnd n) k = YearEnd k"

fun offset_n :: "offset \<Rightarrow> int" where
  "offset_n (Tick d) = d"
| "offset_n (Week n) = n"
| "offset_n (MonthEnd n) = n"
| "offset_n (YearEnd n) = n"

definition rollforward :: "offset \<Rightarrow> int \<Rightarrow> int" where
  "rollforward off ts = (if is_on_offset off ts then ts else apply_offset (with_n off 1) ts)"

definition rollback :: "offset \<Rightarrow> int \<Rightarrow> int" where
  "rollback off ts = (if is_on_offset off ts then ts else apply_offset (with_n off (- 1)) ts)"

text \<open>
  The loop of pandas' \<open>generate_range\<close> for a forward offset: it yields \<open>cur\<close> while
  \<open>cur <= end\<close> and raises when the offset does not move the date forward.
\<close>

function generate_range_loop :: "offset \<Rightarrow> int \<Rightarrow> int \<Rightarrow> error + int list" where
  "generate_range_loop off cur end_date =
     (if cur \<le> end_date
      then (if cur = end_date then Inr [cur]
            else if apply_offset off cur \<le> cur
            then Inl (ValueError ''Offset did not increment date'')
            else (case generate_range_loop off (apply_offset off cur) end_date of
                    Inl e \<Rightarrow> Inl e
                  | Inr ts \<Rightarrow> Inr (cur # ts)))
      else Inr [])"
  by pat_completeness auto
termination
  by (relation "measure (\<lambda>(off, cur, end_date). nat (end_date - cur + 1))") auto

declare generate_range_loop.simps [simp del]

text \<open>
  \<open>pd.date_range(start=start, end=end_date, freq=off)\<close> on naive timestamps. A fixed stride
  takes the arithmetic path of pandas (\<open>arange\<close> from \<open>start\<close> by the stride up to the last
  multiple not after \<open>end_date\<close>); an anchored offset rolls an off-anchor start forward and
  runs the loop.
\<close>

definition date_range :: "offset \<Rightarrow> int \<Rightarrow> int \<Rightarrow> error + int list" where
  "date_range off start_date end_date =
     (case off of
        Tick d \<Rightarrow>
          if d \<le> 0 then Inl (NotModelled ''non-positive stride'')
          else Inr (map (\<lambda>k. start_date + int k * d) [0 ..< nat ((end_date - start_date) div d + 1)])
      | _ \<Rightarrow>
          if offset_n off \<le> 0 then Inl (NotModelled ''non-positive multiple'')
          else
            (let start' = (if is_on_offset off start_date then start_date
                           else rollforward off start_date);
                 end' = (if is_on_offset off start_date \<and> \<not> is_on_offset off end_date
                         then rollback off end_date else end_date)
             in if end' < start' then Inr [] else generate_range_loop off start' end'))"

text \<open>
  \<open>pd.date_range(start=start, periods=periods, freq=off)\<close>: the end of the range is
  \<open>start + (periods - 1) * off\<close>.
\<close>

definition date_range_periods :: "offset \<Rightarrow> int \<Rightarrow> int \<Rightarrow> error + int list" where
  "date_range_periods off start_date periods =
     (if periods < 0 then Inl (ValueError ''Number of samples must be non-negative'')
      else case off of
        Tick d \<Rightarrow>
          if d \<le> 0 then Inl (NotModelled ''non-positive stride'')
          else Inr (map (\<lambda>k. start_date + int k * d) [0 ..< nat periods])
      | _ \<Rightarrow>
          if offset_n off \<le> 0 then Inl (NotModelled ''non-positive multiple'')
          else
            (let start' = (if is_on_offset off start_date then start_date
                           else rollforward off start_date);
                 end' = apply_offset (with_n off ((periods - 1) * offset_n off)) start'
             in if end' < start' then Inr [] else generate_range_loop off start' end'))"

section \<open>Dataframe access\<close>

text \<open>\<open>df[name]\<close>: the cells of one column, \<open>KeyError\<close> for an unknown name.\<close>

definition get_column :: "dataframe \<Rightarrow> string \<Rightarrow> error + cell list" where
  "get_column df name =
     (case index_of name (columns df) of
        None \<Rightarrow> Inl (KeyError name)
      | Some i \<Rightarrow> Inr (map (\<lambda>r. r ! i) (rows df)))"

text \<open>\<open>df[name] = values\<close> for an existing column and as many values as rows.\<close>

definition set_column :: "dataframe \<Rightarrow> string \<Rightarrow> cell list \<Rightarrow> dataframe" where
  "set_column df name vals =
     (case index_of name (columns df) of
        None \<Rightarrow> df
      | Some i \<Rightarrow> df \<lparr> rows := map (\<lambda>(r, v). r[i := v]) (zip (rows df) vals) \<rparr>)"

text \<open>
  \<open>pd.to_datetime\<close> on a column of timestamps keeps it; parsing of strings and numbers is
  outside the embedding.
\<close>

fun to_datetime_cell :: "cell \<Rightarrow> error + cell" where
  "to_datetime_cell (Time t) = Inr (Time t)"
| "to_datetime_cell (TimeTz u off) = Inr (TimeTz u off)"
| "to_datetime_cell c = Inl (NotModelled ''to_datetime'')"

fun sequence_sum :: "(error + 'a) list \<Rightarrow> error + 'a list" where
  "sequence_sum [] = Inr []"
| "sequence_sum (x # xs) =
     (case x of
        Inl e \<Rightarrow> Inl e
      | Inr v \<Rightarrow> (case sequence_sum xs of Inl e \<Rightarrow> Inl e | Inr vs \<Rightarrow> Inr (v # vs)))"

definition to_datetime :: "cell list \<Rightarrow> error + cell list" where
  "to_datetime cs = sequence_sum (map to_datetime_cell cs)"

text \<open>\<open>.dt.tz_localize(tz=None)\<close>: drop the zone of an aware timestamp, keeping its wall time.\<close>

fun tz_localize_none :: "cell \<Rightarrow> cell" where
  "tz_localize_none (TimeTz u off) = Time (u + off)"
| "tz_localize_none c = c"

fun time_value :: "cell \<Rightarrow> error + int" where
  "time_value (Time t) = Inr t"
| "time_value c = Inl (NotModelled ''timestamp'')"

section \<open>Time grid validation\<close>

text \<open>
  \<open>check_continuous_time_column\<close>. The function assigns the normalised time column to the
  caller's dataframe before it validates, so the model returns the dataframe as the call
  leaves it next to the result, also when the call raises.
\<close>

definition check_continuous_time_column ::
  "dataframe \<Rightarrow> string \<Rightarrow> string \<Rightarrow> pyval \<Rightarrow> (error + bool) \<times> dataframe" where
  "check_continuous_time_column df time_column_name time_granularity_unit time_granularity_step =
     (case get_column df time_column_name of
        Inl e \<Rightarrow> (Inl e, df)
      | Inr col \<Rightarrow>
          (case to_datetime col of
             Inl e \<Rightarrow> (Inl e, df)
           | Inr parsed \<Rightarrow>
               (let df' = set_column df time_column_name (map tz_localize_none parsed)
                in case get_column df' time_column_name of
                     Inl e \<Rightarrow> (Inl e, df')
                   | Inr col' \<Rightarrow>
                       if col' = [] then (Inl IndexError, df')
                       else
                         (case sequence_sum (map time_value col') of
                            Inl e \<Rightarrow> (Inl e, df')
                          | Inr ts \<Rightarrow>
                              (case to_offset time_granularity_step time_granularity_unit of
                                 Inl e \<Rightarrow> (Inl e, df')
                               | Inr frequency \<Rightarrow>
                                   (case date_range frequency (hd ts) (last ts) of
                                      Inl e \<Rightarrow> (Inl e, df')
                                    | Inr date_range_df \<Rightarrow>
                                        if length date_range_df \<noteq> length (rows df')
                                           \<or> ts \<noteq> date_range_df
                                        then (Inr False, df')
                                        else (Inr True, df')))))))"

definition continuity_message :: "string \<Rightarrow> string \<Rightarrow> pyval \<Rightarrow> string" where
  "continuity_message time_column_name time_granularity_unit time_granularity_step =
     ''Time column '' @ time_column_name @ '' doesn'' @ [CHR 0x27]
       @ ''t have regular time intervals of frequency ''
       @ format_pyval time_granularity_step @ time_granularity_unit @ ''.''"

definition period_end_message :: "string \<Rightarrow> string" where
  "period_end_message unit_name =
     ''For '' @ unit_name @ '' frequency, timestamps must be end of '' @ unit_name
       @ '' (for e.g. '' @ [CHR 0x27] @ ''2020-12-31 00:00:00'' @ [CHR 0x27] @ '')''"

text \<open>\<open>assert_continuous_time_column\<close>; the unit name is chosen by comparing the \<^emph>\<open>step\<close> with \<open>'M'\<close>, as the source does.\<close>

definition assert_continuous_time_column ::
  "dataframe \<Rightarrow> string \<Rightarrow> string \<Rightarrow> pyval \<Rightarrow> (error + unit) \<times> dataframe" where
  "assert_continuous_time_column df time_column_name time_granularity_unit time_granularity_step =
     (case check_continuous_time_column df time_column_name time_granularity_unit
             time_granularity_step of
        (Inl e, df') \<Rightarrow> (Inl e, df')
      | (Inr is_continuous, df') \<Rightarrow>
          if \<not> is_continuous
          then (let error_message =
                      continuity_message time_column_name time_granularity_unit
                        time_granularity_step
                in if time_granularity_unit = ''M'' \<or> time_granularity_unit = ''Y''
                   then (let unit_name = (if time_granularity_step = PyStr ''M''
                                          then ''Month'' else ''Year'')
                         in (Inl (ValueError (error_message @ period_end_message unit_name)), df'))
                   else (Inl (ValueError error_message), df'))
          else (Inr (), df'))"

text \<open>Predicates on cells and frames used to state the properties of validation.\<close>

fun is_timestamp :: "cell \<Rightarrow> bool" where
  "is_timestamp (Time t) = True"
| "is_timestamp (TimeTz u off) = True"
| "is_timestamp c = False"

fun is_naive :: "cell \<Rightarrow> bool" where
  "is_naive (Time t) = True"
| "is_naive c = False"

definition wf_dataframe :: "dataframe \<Rightarrow> bool" where
  "wf_dataframe df = list_all (\<lambda>r. length r = length (columns df)) (rows df)"

section \<open>Dataset builder\<close>

record GluonDataset =
  gd_dataframe :: dataframe
  gd_time_column_name :: string
  gd_frequency :: string
  gd_target_columns_names :: "string list"
  gd_timeseries_identifiers_names :: "string list option"
  gd_external_features_columns_names :: "string list option"

text \<open>Python truth value of an optional list, and of a scalar cell.\<close>

fun truthy_list :: "'a list option \<Rightarrow> bool" where
  "truthy_list None = False"
| "truthy_list (Some xs) = (xs \<noteq> [])"

fun truthy_cell :: "cell \<Rightarrow> bool" where
  "truthy_cell (Float r) = (r \<noteq> 0)"
| "truthy_cell (Str s) = (s \<noteq> [])"
| "truthy_cell c = True"

text \<open>\<open>xs[:stop]\<close>: a negative stop counts from the end, \<open>None\<close> keeps everything.\<close>

fun slice_to :: "int option \<Rightarrow> 'a list \<Rightarrow> 'a list" where
  "slice_to None xs = xs"
| "slice_to (Some j) xs =
     (if j < 0 then take (nat (int (length xs) + j)) xs else take (nat j) xs)"

text \<open>\<open>series.iloc[0]\<close>\<close>

fun iloc0 :: "'a list \<Rightarrow> error + 'a" where
  "iloc0 [] = Inl IndexError"
| "iloc0 (x # xs) = Inr x"

text \<open>\<open>df[names]\<close>: the listed columns, in the order of the list.\<close>

definition get_columns :: "dataframe \<Rightarrow> string list \<Rightarrow> error + cell list list" where
  "get_columns df names = sequence_sum (map (get_column df) names)"

text \<open>
  The order in which \<open>groupby\<close> sorts its keys, for key columns of one type; keys of
  mixed types are outside the embedding.
\<close>

fun str_less :: "string \<Rightarrow> string \<Rightarrow> bool" where
  "str_less [] [] = False"
| "str_less [] (d # ds) = True"
| "str_less (c # cs) [] = False"
| "str_less (c # cs) (d # ds) =
     ((of_char c :: nat) < of_char d \<or> (c = d \<and> str_less cs ds))"

fun cell_less :: "cell \<Rightarrow> cell \<Rightarrow> bool" where
  "cell_less (Float a) (Float b) = (a < b)"
| "cell_less (Str a) (Str b) = str_less a b"
| "cell_less (Time a) (Time b) = (a < b)"
| "cell_less (TimeTz a x) (TimeTz b y) = (a < b)"
| "cell_less c c' = False"

fun key_less :: "cell list \<Rightarrow> cell list \<Rightarrow> bool" where
  "key_less [] [] = False"
| "key_less [] (d # ds) = True"
| "key_less (c # cs) [] = False"
| "key_less (c # cs) (d # ds) = (cell_less c d \<or> (c = d \<and> key_less cs ds))"

fun insert_key :: "cell list \<Rightarrow> cell list list \<Rightarrow> cell list list" where
  "insert_key k [] = [k]"
| "insert_key k (x # xs) =
     (if k = x then x # xs else if key_less k x then k # x # xs else x # insert_key k xs)"

text \<open>
  \<open>df.groupby(names)\<close>: one group per distinct key, keys sorted, rows with a missing key
  value dropped, the rows of a group in their order in \<open>df\<close>.
\<close>

definition groupby :: "dataframe \<Rightarrow> string list \<Rightarrow> error + (cell list \<times> dataframe) list" where
  "groupby df names =
     (case get_columns df names of
        Inl e \<Rightarrow> Inl e
      | Inr cols \<Rightarrow>
          (let row_keys = map (\<lambda>i. map (\<lambda>col. col ! i) cols) [0 ..< length (rows df)];
               keys = foldr insert_key (filter (\<lambda>k. NaN \<notin> set k) row_keys) []
           in Inr (map (\<lambda>k. (k, df \<lparr> rows := map snd (filter (\<lambda>(k', r). k' = k)
                                                       (zip row_keys (rows df))) \<rparr>))
                       keys)))"

text \<open>\<open>GluonDataset._create_gluon_univariate_timeseries\<close>\<close>

definition create_gluon_univariate_timeseries ::
  "GluonDataset \<Rightarrow> dataframe \<Rightarrow> string \<Rightarrow> int option \<Rightarrow> cell list option \<Rightarrow> error + timeseries" where
  "create_gluon_univariate_timeseries self df target_column_name len identifiers_values =
     (case get_column df (gd_time_column_name self) of
        Inl e \<Rightarrow> Inl e
      | Inr time_col \<Rightarrow>
     (case iloc0 time_col of
        Inl e \<Rightarrow> Inl e
      | Inr first \<Rightarrow>
     (case get_column df target_column_name of
        Inl e \<Rightarrow> Inl e
      | Inr target_col \<Rightarrow>
     (case (if truthy_list (gd_external_features_columns_names self)
            then map_sum id Some (get_columns df (the (gd_external_features_columns_names self)))
            else Inr None) of
        Inl e \<Rightarrow> Inl e
      | Inr feature_cols \<Rightarrow>
          Inr \<lparr> ts_start = first,
                ts_target = slice_to len target_col,
                ts_target_name = target_column_name,
                ts_time_column_name = gd_time_column_name self,
                ts_feat_dynamic_real = map_option (map (slice_to len)) feature_cols,
                ts_feat_dynamic_real_columns_names =
                  (if truthy_list (gd_external_features_columns_names self)
                   then gd_external_features_columns_names self else None),
                ts_identifiers =
                  (case identifiers_values of
                     None \<Rightarrow> None
                   | Some key \<Rightarrow>
                       (case gd_timeseries_identifiers_names self of
                          None \<Rightarrow> None
                        | Some names \<Rightarrow>
                            if 1 < length names then Some (zip names key)
                            else if truthy_cell (hd key) then Some [(hd names, hd key)]
                            else None)) \<rparr>))))"

text \<open>\<open>GluonDataset._create_gluon_multivariate_timeseries\<close>: one record per target column.\<close>

definition create_gluon_multivariate_timeseries ::
  "GluonDataset \<Rightarrow> dataframe \<Rightarrow> int option \<Rightarrow> cell list option \<Rightarrow> error + timeseries list" where
  "create_gluon_multivariate_timeseries self df len identifiers_values =
     sequence_sum (map (\<lambda>target_column_name.
                          create_gluon_univariate_timeseries self df target_column_name len
                            identifiers_values)
                       (gd_target_columns_names self))"

text \<open>
  The function \<open>assert_time_column_valid\<close>, which \<open>gluon_dataset.py\<close> imports, is a
  parameter of the builder: a validation of a frame against a frequency and an optional
  start date and number of periods that raises or returns nothing.
\<close>

type_synonym time_column_validator =
  "dataframe \<Rightarrow> string \<Rightarrow> string \<Rightarrow> cell option \<Rightarrow> nat option \<Rightarrow> error + unit"

text \<open>
  The loop of \<open>create_list_dataset\<close> over the groups; \<open>i\<close> is the loop index and the first
  group fixes \<open>start_date\<close> and \<open>periods\<close>.
\<close>

fun create_list_dataset_loop ::
  "time_column_validator \<Rightarrow> GluonDataset \<Rightarrow> int option \<Rightarrow> nat \<Rightarrow> cell option \<Rightarrow> nat option
     \<Rightarrow> (cell list \<times> dataframe) list \<Rightarrow> error + timeseries list" where
  "create_list_dataset_loop assert_time_column_valid self len i start_date periods [] = Inr []"
| "create_list_dataset_loop assert_time_column_valid self len i start_date periods
       ((identifiers_values, identifiers_df) # groups) =
     (case assert_time_column_valid identifiers_df (gd_time_column_name self) (gd_frequency self)
             start_date periods of
        Inl e \<Rightarrow> Inl e
      | Inr u \<Rightarrow>
     (case (if i = 0
            then (case get_column identifiers_df (gd_time_column_name self) of
                    Inl e \<Rightarrow> Inl e
                  | Inr time_col \<Rightarrow>
                      (case iloc0 time_col of
                         Inl e \<Rightarrow> Inl e
                       | Inr first \<Rightarrow> Inr (Some first, Some (length (rows identifiers_df)))))
            else Inr (start_date, periods)) of
        Inl e \<Rightarrow> Inl e
      | Inr (start_date', periods') \<Rightarrow>
     (case create_gluon_multivariate_timeseries self identifiers_df len
             (Some identifiers_values) of
        Inl e \<Rightarrow> Inl e
      | Inr series \<Rightarrow>
     (case create_list_dataset_loop assert_time_column_valid self len (Suc i) start_date'
             periods' groups of
        Inl e \<Rightarrow> Inl e
      | Inr rest \<Rightarrow> Inr (series @ rest)))))"

text \<open>\<open>GluonDataset.create_list_dataset\<close>\<close>

definition create_list_dataset ::
  "time_column_validator \<Rightarrow> GluonDataset \<Rightarrow> int option \<Rightarrow> error + ListDataset" where
  "create_list_dataset assert_time_column_valid self cut_length =
     (let len = (case cut_length of
                   None \<Rightarrow> None
                 | Some k \<Rightarrow> if k \<noteq> 0 then Some (- k) else None)
      in if truthy_list (gd_timeseries_identifiers_names self)
         then (case groupby (gd_dataframe self) (the (gd_timeseries_identifiers_names self)) of
                 Inl e \<Rightarrow> Inl e
               | Inr groups \<Rightarrow>
                   (case create_list_dataset_loop assert_time_column_valid self len 0 None None
                           groups of
                      Inl e \<Rightarrow> Inl e
                    | Inr multivariate_timeseries \<Rightarrow>
                        Inr \<lparr> list_data = multivariate_timeseries, freq = gd_frequency self \<rparr>))
         else (case assert_time_column_valid (gd_dataframe self) (gd_time_column_name self)
                      (gd_frequency self) None None of
                 Inl e \<Rightarrow> Inl e
               | Inr u \<Rightarrow>
                   (case create_gluon_multivariate_timeseries self (gd_dataframe self) len None of
                      Inl e \<Rightarrow> Inl e
                    | Inr multivariate_timeseries \<Rightarrow>
                        Inr \<lparr> list_data = multivariate_timeseries, freq = gd_frequency self \<rparr>)))"

text \<open>
  A per-series record without its last \<open>k\<close> time steps: the target and every feature row
  cut at the end. It states what truncation by \<open>cut_length\<close> is compared with.
\<close>

definition drop_last_steps :: "nat \<Rightarrow> timeseries \<Rightarrow> timeseries" where
  "drop_last_steps k r =
     r \<lparr> ts_target := take (length (ts_target r) - k) (ts_target r),
         ts_feat_dynamic_real :=
           map_option (map (\<lambda>row. take (length row - k) row)) (ts_feat_dynamic_real r) \<rparr>"

section \<open>External feature aligner\<close>









text \<open>A frequency string such as \<open>3M\<close> split into its step and its unit.\<close>

definition split_frequency :: "string \<Rightarrow> pyval \<times> string" where
  "split_frequency frequency =
     (PyStr (takeWhile (\<lambda>c. digit_value c \<noteq> None) frequency),
      dropWhile (\<lambda>c. digit_value c \<noteq> None) frequency)"


section \<open>Forecast reconstructor: history and merge\<close>

text \<open>
  A pandas Series or DataFrame with a \<open>DatetimeIndex\<close>: the index, the column names
  (one name for a Series) and one row of cells per index entry.
\<close>

record indexed_frame =
  ix_index :: "int list"
  ix_columns :: "string list"
  ix_rows :: "cell list list"

text \<open>\<open>pd.date_range(start=start, periods=periods, freq=frequency)\<close> from a frequency string.\<close>

definition date_range_of_frequency :: "cell \<Rightarrow> int \<Rightarrow> string \<Rightarrow> error + int list" where
  "date_range_of_frequency start_date periods frequency =
     (case time_value start_date of
        Inl e \<Rightarrow> Inl e
      | Inr t \<Rightarrow>
          (case to_offset (fst (split_frequency frequency)) (snd (split_frequency frequency)) of
             Inl e \<Rightarrow> Inl e
           | Inr off \<Rightarrow> date_range_periods off t periods))"

text \<open>\<open>TrainedModel._generate_history_target_series\<close>\<close>

definition generate_history_target_series ::
  "TrainedModel \<Rightarrow> timeseries \<Rightarrow> string \<Rightarrow> error + indexed_frame" where
  "generate_history_target_series self timeseries frequency =
     (if tm_prediction_length self < 0
      then Inl (ValueError ''negative dimensions are not allowed'')
      else case date_range_of_frequency (ts_start timeseries)
                  (int (length (ts_target timeseries)) + tm_prediction_length self) frequency of
             Inl e \<Rightarrow> Inl e
           | Inr idx \<Rightarrow>
               (let vals = ts_target timeseries @ replicate (nat (tm_prediction_length self)) NaN
                in if length vals \<noteq> length idx
                   then Inl (ValueError ''Length of values does not match length of index'')
                   else Inr \<lparr> ix_index = idx,
                              ix_columns = [ts_target_name timeseries],
                              ix_rows = map (\<lambda>v. [v]) vals \<rparr>))"

text \<open>\<open>TrainedModel._generate_history_external_features_dataframe\<close>\<close>

definition generate_history_external_features_dataframe ::
  "TrainedModel \<Rightarrow> timeseries \<Rightarrow> string \<Rightarrow> error + indexed_frame" where
  "generate_history_external_features_dataframe self timeseries frequency =
     (case ts_feat_dynamic_real timeseries of
        None \<Rightarrow> Inl (KeyError ''feat_dynamic_real'')
      | Some feat \<Rightarrow>
     (case ts_feat_dynamic_real_columns_names timeseries of
        None \<Rightarrow> Inl (KeyError ''feat_dynamic_real_columns_names'')
      | Some names \<Rightarrow>
     (case date_range_of_frequency (ts_start timeseries)
             (int (length (ts_target timeseries)) + tm_prediction_length self) frequency of
        Inl e \<Rightarrow> Inl e
      | Inr idx \<Rightarrow>
          (let data = take (nat (int (length (ts_target timeseries)) + tm_prediction_length self))
                        (transpose feat)
           in if length data \<noteq> length idx \<or> length names \<noteq> length feat
              then Inl (ValueError ''Shape of passed values does not match the indices'')
              else Inr \<lparr> ix_index = idx, ix_columns = names, ix_rows = data \<rparr>))))"

text \<open>
  The key of a record in the dictionaries of series: \<open>tuple(sorted(identifiers.items()))\<close>,
  or \<open>None\<close> for a record without identifiers. Identifier names are distinct, so the items
  are sorted by name.
\<close>

fun insert_item :: "string \<times> cell \<Rightarrow> (string \<times> cell) list \<Rightarrow> (string \<times> cell) list" where
  "insert_item kv [] = [kv]"
| "insert_item kv (x # xs) =
     (if str_less (fst kv) (fst x) then kv # x # xs else x # insert_item kv xs)"

definition identifier_key :: "timeseries \<Rightarrow> (string \<times> cell) list option" where
  "identifier_key timeseries =
     map_option (\<lambda>items. foldr insert_item items []) (ts_identifiers timeseries)"

text \<open>\<open>d[key] += [x]\<close> when the key is present, \<open>d[key] = [x]\<close> otherwise; insertion order kept.\<close>

fun dict_append :: "('k \<times> 'v list) list \<Rightarrow> 'k \<Rightarrow> 'v \<Rightarrow> ('k \<times> 'v list) list" where
  "dict_append [] k v = [(k, [v])]"
| "dict_append ((k', vs) # d) k v =
     (if k' = k then (k', vs @ [v]) # d else (k', vs) # dict_append d k v)"

text \<open>The loop of \<open>TrainedModel._retrieve_history_timeseries\<close> over the records.\<close>

fun retrieve_history_loop ::
  "TrainedModel \<Rightarrow> string \<Rightarrow> ((string \<times> cell) list option \<times> indexed_frame list) list
     \<Rightarrow> timeseries list \<Rightarrow> error + ((string \<times> cell) list option \<times> indexed_frame list) list" where
  "retrieve_history_loop self frequency history_timeseries [] = Inr history_timeseries"
| "retrieve_history_loop self frequency history_timeseries (timeseries # more_series) =
     (let timeseries_identifier_key = identifier_key timeseries
      in case generate_history_target_series self timeseries frequency of
           Inl e \<Rightarrow> Inl e
         | Inr target_series \<Rightarrow>
             (case (if ts_feat_dynamic_real_columns_names timeseries \<noteq> None
                    then (case ts_feat_dynamic_real timeseries of
                            None \<Rightarrow> Inl (KeyError ''feat_dynamic_real'')
                          | Some [] \<Rightarrow> Inl IndexError
                          | Some (feature_row # feature_rows) \<Rightarrow>
                              if int (length feature_row)
                                   < int (length (ts_target timeseries)) + tm_prediction_length self
                              then Inl AssertionError
                              else if timeseries_identifier_key \<notin> fst ` set history_timeseries
                              then (case generate_history_external_features_dataframe self
                                           timeseries frequency of
                                      Inl e \<Rightarrow> Inl e
                                    | Inr external_features_df \<Rightarrow>
                                        Inr (dict_append history_timeseries
                                               timeseries_identifier_key external_features_df))
                              else Inr history_timeseries)
                    else Inr history_timeseries) of
                Inl e \<Rightarrow> Inl e
              | Inr history_timeseries' \<Rightarrow>
                  retrieve_history_loop self frequency
                    (dict_append history_timeseries' timeseries_identifier_key target_series)
                    more_series))"

text \<open>\<open>TrainedModel._retrieve_history_timeseries\<close>\<close>

definition retrieve_history_timeseries ::
  "TrainedModel \<Rightarrow> string \<Rightarrow> error + ((string \<times> cell) list option \<times> indexed_frame list) list" where
  "retrieve_history_timeseries self frequency =
     retrieve_history_loop self frequency [] (list_data (tm_gluon_dataset self))"

text \<open>
  \<open>pd.concat(series_list, axis=1)\<close> for indexes without duplicates: frames of one common
  index are put side by side; otherwise the result is indexed by the sorted union of the
  indexes and a frame contributes missing values where it has no entry.
\<close>

definition lookup_row :: "indexed_frame \<Rightarrow> int \<Rightarrow> cell list" where
  "lookup_row f t =
     (case index_of t (ix_index f) of
        None \<Rightarrow> replicate (length (ix_columns f)) NaN
      | Some i \<Rightarrow> ix_rows f ! i)"

definition concat_columns :: "indexed_frame list \<Rightarrow> error + indexed_frame" where
  "concat_columns series_list =
     (case series_list of
        [] \<Rightarrow> Inl (ValueError ''No objects to concatenate'')
      | f # fs \<Rightarrow>
          (let idx = (if list_all (\<lambda>g. ix_index g = ix_index f) fs then ix_index f
                      else sort (remdups (concat (map ix_index series_list))))
           in Inr \<lparr> ix_index = idx,
                    ix_columns = concat (map ix_columns series_list),
                    ix_rows = map (\<lambda>t. concat (map (\<lambda>g. lookup_row g t) series_list)) idx \<rparr>))"

text \<open>\<open>.reset_index(drop=False)\<close>: the index becomes the first column, named \<open>index\<close>.\<close>

definition reset_index :: "indexed_frame \<Rightarrow> error + dataframe" where
  "reset_index f =
     (if ''index'' \<in> set (ix_columns f)
      then Inl (ValueError ''cannot insert index, already exists'')
      else Inr \<lparr> columns = ''index'' # ix_columns f,
                 rows = map (\<lambda>(t, r). Time t # r) (zip (ix_index f) (ix_rows f)) \<rparr>)"

text \<open>\<open>df[name] = value\<close> for a scalar: the column is overwritten or added at the end.\<close>

definition assign_constant :: "dataframe \<Rightarrow> string \<Rightarrow> cell \<Rightarrow> dataframe" where
  "assign_constant df name v =
     (case index_of name (columns df) of
        Some i \<Rightarrow> df \<lparr> rows := map (\<lambda>r. r[i := v]) (rows df) \<rparr>
      | None \<Rightarrow> \<lparr> columns = columns df @ [name], rows = map (\<lambda>r. r @ [v]) (rows df) \<rparr>)"

text \<open>\<open>concat_timeseries_per_identifiers\<close>\<close>

definition concat_timeseries_per_identifiers ::
  "((string \<times> cell) list option \<times> indexed_frame list) list \<Rightarrow> error + dataframe list" where
  "concat_timeseries_per_identifiers all_timeseries =
     sequence_sum
       (map (\<lambda>(timeseries_identifier_key, series_list).
               case concat_columns series_list of
                 Inl e \<Rightarrow> Inl e
               | Inr joined \<Rightarrow>
                   (case reset_index joined of
                      Inl e \<Rightarrow> Inl e
                    | Inr unique_identifiers_df \<Rightarrow>
                        Inr (case timeseries_identifier_key of
                               None \<Rightarrow> unique_identifiers_df
                             | Some items \<Rightarrow>
                                 foldl (\<lambda>df (identifier_key, identifier_value).
                                          assign_constant df identifier_key identifier_value)
                                       unique_identifiers_df items)))
            all_timeseries)"

text \<open>
  \<open>concat_all_timeseries\<close>: \<open>pd.concat(multiple_df, axis=0).reset_index(drop=True)\<close>. The
  columns are those of all frames in order of first appearance; a frame without a column
  contributes missing values.
\<close>

definition concat_all_timeseries :: "dataframe list \<Rightarrow> error + dataframe" where
  "concat_all_timeseries multiple_df =
     (if multiple_df = [] then Inl (ValueError ''No objects to concatenate'')
      else (let all_columns = rev (remdups (rev (concat (map columns multiple_df))))
            in Inr \<lparr> columns = all_columns,
                     rows = concat (map (\<lambda>df. map (\<lambda>r. map (\<lambda>c. case index_of c (columns df) of
                                                                     None \<Rightarrow> NaN
                                                                   | Some i \<Rightarrow> r ! i)
                                                             all_columns)
                                                  (rows df))
                                        multiple_df) \<rparr>))"

text \<open>
  \<open>left.merge(right, on=keys, how="left", indicator=True)\<close>: every left row, in order,
  joined with each right row of the same key values, or with missing values when there is
  none; columns of one name on both sides outside the keys get the suffixes \<open>_x\<close> and
  \<open>_y\<close>; the last column \<open>_merge\<close> tells where the row comes from.
\<close>

definition key_of :: "dataframe \<Rightarrow> string list \<Rightarrow> cell list \<Rightarrow> cell list" where
  "key_of df keys r = map (\<lambda>c. case index_of c (columns df) of None \<Rightarrow> NaN | Some i \<Rightarrow> r ! i) keys"

definition other_cells :: "dataframe \<Rightarrow> string list \<Rightarrow> cell list \<Rightarrow> cell list" where
  "other_cells df keys r = map snd (filter (\<lambda>(c, v). c \<notin> set keys) (zip (columns df) r))"

definition merge_left :: "dataframe \<Rightarrow> dataframe \<Rightarrow> string list \<Rightarrow> error + dataframe" where
  "merge_left left right keys =
     (if \<not> set keys \<subseteq> set (columns left) \<or> \<not> set keys \<subseteq> set (columns right)
      then Inl (KeyError (concat keys))
      else
        (let right_other = filter (\<lambda>c. c \<notin> set keys) (columns right);
             left_names = map (\<lambda>c. if c \<notin> set keys \<and> c \<in> set right_other then c @ ''_x'' else c)
                            (columns left);
             right_names = map (\<lambda>c. if c \<in> set (columns left) then c @ ''_y'' else c) right_other
         in Inr \<lparr> columns = left_names @ right_names @ [''_merge''],
                  rows = concat (map (\<lambda>l.
                           (case filter (\<lambda>r. key_of right keys r = key_of left keys l) (rows right) of
                              [] \<Rightarrow> [l @ replicate (length right_other) NaN @ [Str ''left_only'']]
                            | matches \<Rightarrow> map (\<lambda>r. l @ other_cells right keys r @ [Str ''both''])
                                             matches))
                           (rows left)) \<rparr>))"

text \<open>
  The history table of \<open>TrainedModel._include_history\<close>: the first three statements of the
  method.
\<close>

definition history_dataframe :: "TrainedModel \<Rightarrow> string \<Rightarrow> error + dataframe" where
  "history_dataframe self frequency =
     (case retrieve_history_timeseries self frequency of
        Inl e \<Rightarrow> Inl e
      | Inr history_timeseries \<Rightarrow>
          (case concat_timeseries_per_identifiers history_timeseries of
             Inl e \<Rightarrow> Inl e
           | Inr multiple_df \<Rightarrow> concat_all_timeseries multiple_df))"

text \<open>\<open>TrainedModel._include_history\<close>: the history table left-merged with the forecasts.\<close>

definition TrainedModel_include_history :: "TrainedModel \<Rightarrow> string \<Rightarrow> error + dataframe" where
  "TrainedModel_include_history self frequency =
     (case history_dataframe self frequency of
        Inl e \<Rightarrow> Inl e
      | Inr history_df \<Rightarrow>
          (case tm_identifiers_columns self of
             None \<Rightarrow> Inl TypeError
           | Some identifiers \<Rightarrow>
               (case tm_forecasts_df self of
                  None \<Rightarrow> Inl TypeError
                | Some forecasts \<Rightarrow> merge_left history_df forecasts (''index'' # identifiers))))"

section \<open>Example data\<close>

definition example_sample :: timeseries where
  "example_sample =
     \<lparr> ts_start = Time 0, ts_target = [Float 1, Float 2], ts_target_name = ''sales'',
       ts_time_column_name = ''date'', ts_feat_dynamic_real = None,
       ts_feat_dynamic_real_columns_names = None, ts_identifiers = None \<rparr>"


definition example_sample_ext :: timeseries where
  "example_sample_ext = example_sample \<lparr> ts_feat_dynamic_real := Some [[Float 7, Float 8]],
        ts_feat_dynamic_real_columns_names := Some [''price''] \<rparr>"

text \<open>A frame with the naive timestamps \<open>ts\<close> in its time column \<open>date\<close> and a target column.\<close>

definition example_frame :: "int list \<Rightarrow> dataframe" where
  "example_frame ts = \<lparr> columns = [''date'', ''sales''], rows = map (\<lambda>t. [Time t, Float 1]) ts \<rparr>"

definition example_frame_utc1 :: dataframe where
  "example_frame_utc1 =
     \<lparr> columns = [''date'', ''sales''],
       rows = [[TimeTz 0 3600000000000, Float 1],
               [TimeTz 86400000000000 3600000000000, Float 2]] \<rparr>"

text \<open>Two stores with three daily rows each, a target and an external feature.\<close>

definition example_stores_frame :: dataframe where
  "example_stores_frame =
     \<lparr> columns = [''date'', ''store'', ''sales'', ''price''],
       rows = [[Time 0, Str ''b'', Float 10, Float 1],
               [Time 0, Str ''a'', Float 20, Float 2],
               [Time 86400000000000, Str ''b'', Float 11, Float 3],
               [Time 86400000000000, Str ''a'', Float 21, Float 4],
               [Time 172800000000000, Str ''b'', Float 12, Float 5],
               [Time 172800000000000, Str ''a'', Float 22, Float 6]] \<rparr>"

definition example_builder :: GluonDataset where
  "example_builder =
     \<lparr> gd_dataframe = example_stores_frame,
       gd_time_column_name = ''date'',
       gd_frequency = ''1D'',
       gd_target_columns_names = [''sales''],
       gd_timeseries_identifiers_names = Some [''store''],
       gd_external_features_columns_names = Some [''price''] \<rparr>"

text \<open>A validator that accepts every frame, standing for a table that passes validation.\<close>

definition accept_all :: time_column_validator where
  "accept_all df time_column frequency start_date periods = Inr ()"




text \<open>
  A model after \<open>predict\<close>: one daily series of two observations, a horizon of one step,
  and a forecast table holding the step after the history and one step further.
\<close>

definition example_history_model :: TrainedModel where
  "example_history_model =
     \<lparr> tm_predictor = \<lparr> predictor_prediction_length = 1 \<rparr>,
       tm_gluon_dataset = \<lparr> list_data = [example_sample], freq = ''1D'' \<rparr>,
       tm_prediction_length = 1,
       tm_quantiles = [1 / 2],
       tm_include_history = True,
       tm_time_column_name = Some ''date'',
       tm_identifiers_columns = Some [],
       tm_forecasts_df = Some \<lparr> columns = [''index'', ''forecast_sales''],
                                rows = [[Time 172800000000000, Float 5],
                                        [Time 259200000000000, Float 6]] \<rparr> \<rparr>"

section \<open>Verified properties: construction, consistency, confidence interval\<close>

text \<open>
  Claim C5. For a predictor with a positive trained horizon (GluonTS accepts no other),
  a requested \<open>prediction_length\<close> strictly greater than the trained one makes the
  constructor raise a \<open>ValueError\<close> whose message ends with the trained horizon, so no
  object exists on which \<open>predict\<close> could be called; a requested length less than or equal
  to the trained one yields an object.
\<close>

theorem init_horizon_check:
  assumes "0 < predictor_prediction_length p"
  shows "(predictor_prediction_length p < pl \<longrightarrow>
            TrainedModel_init p ds pl qs ih
              = Inl (ValueError (horizon_message (predictor_prediction_length p)))) \<and>
         (pl \<le> predictor_prediction_length p \<longrightarrow>
            (\<exists>self. TrainedModel_init p ds pl qs ih = Inr self))"
  using assms by (auto simp: TrainedModel_init_def TrainedModel_check_def TrainedModel_fields_def)

theorem init_horizon_check_witness:
  "TrainedModel_init \<lparr> predictor_prediction_length = 5 \<rparr> \<lparr> list_data = [example_sample], freq = ''1D'' \<rparr> 6 [1 / 2] False
     = Inl (ValueError ''Please choose a forecasting horizon lower or equal to the one chosen when training: 5'') \<and>
   (\<exists>self. TrainedModel_init \<lparr> predictor_prediction_length = 5 \<rparr> \<lparr> list_data = [example_sample], freq = ''1D'' \<rparr> 5 [1 / 2] False = Inr self)"
  using init_horizon_check [of "\<lparr> predictor_prediction_length = 5 \<rparr>" 6 "\<lparr> list_data = [example_sample], freq = ''1D'' \<rparr>" "[1 / 2]" False]
        init_horizon_check [of "\<lparr> predictor_prediction_length = 5 \<rparr>" 5 "\<lparr> list_data = [example_sample], freq = ''1D'' \<rparr>" "[1 / 2]" False]
  by (simp add: horizon_message_def str_int_def str_nat.simps digit_char_def)

text \<open>
  Claim C10. The sentinel \<open>-1\<close> makes the constructor succeed with the predictor's trained
  horizon as effective prediction length; every other requested value is stored as given,
  and is the prediction length of the object whenever the constructor returns one.
\<close>

theorem init_sentinel:
  "TrainedModel_init p ds (- 1) qs ih = Inr (TrainedModel_fields p ds (- 1) qs ih) \<and>
   tm_prediction_length (TrainedModel_fields p ds (- 1) qs ih) = predictor_prediction_length p \<and>
   (pl \<noteq> - 1 \<longrightarrow> tm_prediction_length (TrainedModel_fields p ds pl qs ih) = pl) \<and>
   (pl \<noteq> - 1 \<longrightarrow> (\<forall>self. TrainedModel_init p ds pl qs ih = Inr self \<longrightarrow> tm_prediction_length self = pl))"
  by (auto simp: TrainedModel_init_def TrainedModel_check_def TrainedModel_fields_def Let_def split: if_splits)

theorem init_sentinel_witness:
  "tm_prediction_length (TrainedModel_fields \<lparr> predictor_prediction_length = 5 \<rparr> \<lparr> list_data = [example_sample], freq = ''1D'' \<rparr> 3 [1 / 2] False) = 3 \<and>
   TrainedModel_init \<lparr> predictor_prediction_length = 5 \<rparr> \<lparr> list_data = [example_sample], freq = ''1D'' \<rparr> 3 [1 / 2] False
     = Inr (TrainedModel_fields \<lparr> predictor_prediction_length = 5 \<rparr> \<lparr> list_data = [example_sample], freq = ''1D'' \<rparr> 3 [1 / 2] False)"
  using init_sentinel [of "\<lparr> predictor_prediction_length = 5 \<rparr>" "\<lparr> list_data = [example_sample], freq = ''1D'' \<rparr>" "[1 / 2]" False 3]
  by (simp add: TrainedModel_init_def TrainedModel_check_def TrainedModel_fields_def)

lemma messages_distinct: "missing_future_message \<noteq> unused_future_message"
  by (simp add: missing_future_message_def unused_future_message_def)

text \<open>
  Claim C7. On a non-empty training dataset, \<open>external_features_check\<close> raises a
  \<open>ValueError\<close> when training used external features and no future dataset is given,
  raises a \<open>ValueError\<close> with a different message when a future dataset is given and
  training used none, returns \<open>True\<close> when both are present and the schema check passes,
  and returns \<open>False\<close> when both are absent.
\<close>

theorem external_features_check_cases:
  assumes "list_data ds = sample # rest"
  shows "(ts_feat_dynamic_real_columns_names sample \<noteq> None \<longrightarrow>
            external_features_check ds None = Inl (ValueError missing_future_message)) \<and>
         (ts_feat_dynamic_real_columns_names sample = None \<longrightarrow>
            external_features_check ds (Some d) = Inl (ValueError unused_future_message)) \<and>
         missing_future_message \<noteq> unused_future_message \<and>
         (ts_feat_dynamic_real_columns_names sample \<noteq> None \<longrightarrow>
          external_features_future_dataset_schema_check sample d = Inr () \<longrightarrow>
            external_features_check ds (Some d) = Inr True) \<and>
         (ts_feat_dynamic_real_columns_names sample = None \<longrightarrow>
            external_features_check ds None = Inr False)"
  using assms messages_distinct by (auto simp: external_features_check_def)

theorem external_features_check_cases_witness:
  "external_features_check \<lparr> list_data = [example_sample_ext], freq = ''1D'' \<rparr> None
     = Inl (ValueError missing_future_message) \<and>
   external_features_check \<lparr> list_data = [example_sample], freq = ''1D'' \<rparr>
       (Some \<lparr> read_schema = [''date'', ''price''] \<rparr>)
     = Inl (ValueError unused_future_message) \<and>
   external_features_check \<lparr> list_data = [example_sample_ext], freq = ''1D'' \<rparr>
       (Some \<lparr> read_schema = [''price'', ''date''] \<rparr>) = Inr True \<and>
   external_features_check \<lparr> list_data = [example_sample], freq = ''1D'' \<rparr> None = Inr False"
  using external_features_check_cases
          [of "\<lparr> list_data = [example_sample_ext], freq = ''1D'' \<rparr>" example_sample_ext "[]"
              "\<lparr> read_schema = [''price'', ''date''] \<rparr>"]
        external_features_check_cases
          [of "\<lparr> list_data = [example_sample], freq = ''1D'' \<rparr>" example_sample "[]"
              "\<lparr> read_schema = [''date'', ''price''] \<rparr>"]
  by (simp add: example_sample_ext_def example_sample_def
        external_features_future_dataset_schema_check_def insert_commute)



section \<open>Verified properties: time grid validation\<close>




lemma set_column_same:
  assumes "get_column df c = Inr col"
  shows "set_column df c col = df"
proof -
  from assms obtain i where i: "index_of c (columns df) = Some i"
    and col: "col = map (\<lambda>r. r ! i) (rows df)"
    by (auto simp: get_column_def split: option.splits)
  have "map (\<lambda>(r, v). r[i := v]) (zip rs (map (\<lambda>r. r ! i) rs)) = rs" for rs :: "cell list list"
    by (induction rs) auto
  then show ?thesis
    by (simp add: set_column_def i col)
qed

lemma get_column_length: "get_column df c = Inr col \<Longrightarrow> length col = length (rows df)"
  by (auto simp: get_column_def split: option.splits)


text \<open>The stride grid of a given start and length.\<close>

lemma grid_nth: "k < n \<Longrightarrow> map (\<lambda>k. s + int k * d) [0 ..< n] ! k = s + int k * d"
  by simp

lemma range_count:
  assumes "0 < d" "0 < n"
  shows "nat (((s + int (n - 1) * d) - s) div d + 1) = n"
  using assms by simp




lemma grid_steps:
  "Suc j < n \<Longrightarrow> map (\<lambda>k. s + int k * d) [0 ..< n] ! Suc j = map (\<lambda>k. s + int k * d) [0 ..< n] ! j + d"
  by (simp add: algebra_simps)



















lemma to_datetime_timestamps: "list_all is_timestamp col \<Longrightarrow> to_datetime col = Inr col"
  unfolding to_datetime_def
proof (induction col)
  case Nil
  then show ?case by simp
next
  case (Cons x col)
  then show ?case by (cases x) auto
qed

lemma localize_naive_cells: "list_all is_naive col \<Longrightarrow> map tz_localize_none col = col"
proof (induction col)
  case Nil
  then show ?case by simp
next
  case (Cons x col)
  then show ?case by (cases x) auto
qed

lemma naive_is_timestamp: "list_all is_naive col \<Longrightarrow> list_all is_timestamp col"
proof (induction col)
  case Nil
  then show ?case by simp
next
  case (Cons x col)
  then show ?case by (cases x) auto
qed

lemma index_of_bound: "index_of c cs = Some i \<Longrightarrow> i < length cs"
  by (induction cs arbitrary: i) (auto split: if_splits)

lemma index_of_nth: "index_of c cs = Some i \<Longrightarrow> cs ! i = c"
  by (induction cs arbitrary: i) (auto split: if_splits)

lemma columns_set_column: "columns (set_column df c vs) = columns df"
  by (simp add: set_column_def split: option.splits)

lemma length_rows_set_column:
  "length vs = length (rows df) \<Longrightarrow> length (rows (set_column df c vs)) = length (rows df)"
  by (simp add: set_column_def split: option.splits)

lemma get_other_column_set_column:
  assumes "c' \<noteq> c" and "length vs = length (rows df)"
  shows "get_column (set_column df c vs) c' = get_column df c'"
proof (cases "index_of c (columns df)")
  case None
  then show ?thesis by (simp add: set_column_def)
next
  case (Some i)
  show ?thesis
  proof (cases "index_of c' (columns df)")
    case None
    then show ?thesis by (simp add: get_column_def columns_set_column)
  next
    case j: (Some j)
    have "i \<noteq> j" using index_of_nth [OF Some] index_of_nth [OF j] assms(1) by auto
    then have "map (\<lambda>r. r ! j) (map (\<lambda>(r, v). r[i := v]) (zip rs vs)) = map (\<lambda>r. r ! j) rs"
      if "length vs = length rs" for rs :: "cell list list" and vs
      using that by (induction rs vs rule: list_induct2') auto
    then show ?thesis
      using assms(2) by (simp add: get_column_def columns_set_column j) (simp add: set_column_def Some)
  qed
qed

lemma get_same_column_set_column:
  assumes "wf_dataframe df" and "get_column df c = Inr col" and "length vs = length (rows df)"
  shows "get_column (set_column df c vs) c = Inr vs"
proof -
  from assms(2) obtain i where i: "index_of c (columns df) = Some i"
    by (auto simp: get_column_def split: option.splits)
  have b: "i < length (columns df)" using i by (rule index_of_bound)
  have "map (\<lambda>r. r ! i) (map (\<lambda>(r, v). r[i := v]) (zip rs vs)) = vs"
    if "length vs = length rs" "list_all (\<lambda>r. length r = length (columns df)) rs"
    for rs :: "cell list list" and vs
    using that b by (induction rs vs rule: list_induct2') auto
  then show ?thesis
    using assms(1,3) by (simp add: get_column_def columns_set_column i wf_dataframe_def)
                        (simp add: set_column_def i)
qed

lemma snd_check:
  assumes "get_column df c = Inr col" and "list_all is_timestamp col"
  shows "snd (check_continuous_time_column df c unit step)
           = set_column df c (map tz_localize_none col)"
  unfolding check_continuous_time_column_def
  by (simp add: assms to_datetime_timestamps Let_def split: sum.splits)

lemma snd_assert:
  "snd (assert_continuous_time_column df c unit step)
     = snd (check_continuous_time_column df c unit step)"
  unfolding assert_continuous_time_column_def
  by (cases "check_continuous_time_column df c unit step")
     (auto simp: Let_def split: sum.splits)

text \<open>
  Claim C3, as the code has it. On a time column of timestamps,
  \<open>check_continuous_time_column\<close> (and \<open>assert_continuous_time_column\<close>, which leaves the
  same frame) stores the timezone-naive form of the time column in the caller's dataframe
  and changes nothing else: the column names, the number of rows and every other column
  are as before. A frame whose time column already holds naive timestamps is unchanged.
\<close>

theorem validation_frame_effect:
  assumes col: "get_column df c = Inr col" and ts: "list_all is_timestamp col"
  shows "snd (check_continuous_time_column df c unit step)
           = set_column df c (map tz_localize_none col) \<and>
         snd (assert_continuous_time_column df c unit step)
           = snd (check_continuous_time_column df c unit step) \<and>
         columns (snd (check_continuous_time_column df c unit step)) = columns df \<and>
         length (rows (snd (check_continuous_time_column df c unit step))) = length (rows df) \<and>
         (c' \<noteq> c \<longrightarrow>
            get_column (snd (check_continuous_time_column df c unit step)) c' = get_column df c') \<and>
         (wf_dataframe df \<longrightarrow>
            get_column (snd (check_continuous_time_column df c unit step)) c
              = Inr (map tz_localize_none col)) \<and>
         (list_all is_naive col \<longrightarrow> snd (check_continuous_time_column df c unit step) = df)"
proof -
  have len: "length (map tz_localize_none col) = length (rows df)"
    using get_column_length [OF col] by simp
  have nv: "list_all is_naive col \<longrightarrow> set_column df c (map tz_localize_none col) = df"
    using set_column_same [OF col] by (simp add: localize_naive_cells)
  show ?thesis
    unfolding snd_check [OF col ts] snd_assert
    using nv get_other_column_set_column [OF _ len, of c' c]
      get_same_column_set_column [OF _ col len]
    by (simp add: columns_set_column length_rows_set_column [OF len])
qed

theorem validation_frame_effect_witness:
  "snd (check_continuous_time_column example_frame_utc1 ''date'' ''D'' (PyInt 1))
     = \<lparr> columns = [''date'', ''sales''],
         rows = [[Time 3600000000000, Float 1], [Time 90000000000000, Float 2]] \<rparr> \<and>
   get_column (snd (check_continuous_time_column example_frame_utc1 ''date'' ''D'' (PyInt 1))) ''sales''
     = Inr [Float 1, Float 2] \<and>
   snd (check_continuous_time_column (example_frame [0, 86400000000000]) ''date'' ''D'' (PyInt 1))
     = example_frame [0, 86400000000000]"
  using validation_frame_effect
          [where df = example_frame_utc1 and c = "''date''"
             and col = "[TimeTz 0 3600000000000, TimeTz 86400000000000 3600000000000]"
             and c' = "''sales''" and unit = "''D''" and step = "PyInt 1"]
        validation_frame_effect
          [where df = "example_frame [0, 86400000000000]" and c = "''date''"
             and col = "[Time 0, Time 86400000000000]"
             and c' = "''sales''" and unit = "''D''" and step = "PyInt 1"]
  by (simp add: example_frame_utc1_def example_frame_def get_column_def set_column_def)

text \<open>
  Counterexample to claim C3 as stated: validating a frame whose time column is
  timezone-aware (UTC+1) leaves a different frame behind.
\<close>

theorem validation_rewrites_aware_column:
  "snd (check_continuous_time_column example_frame_utc1 ''date'' ''D'' (PyInt 1))
     \<noteq> example_frame_utc1"
proof -
  have col: "get_column example_frame_utc1 ''date''
               = Inr [TimeTz 0 3600000000000, TimeTz 86400000000000 3600000000000]"
    by (simp add: example_frame_utc1_def get_column_def)
  show ?thesis
    unfolding snd_check [OF col, simplified]
    by (simp add: example_frame_utc1_def set_column_def)
qed

text \<open>
  Claim C2, on the code. Whenever a frame fails validation at the month unit \<open>M\<close>, the
  error raised by \<open>assert_continuous_time_column\<close> is the generic continuity message
  followed by the period-end sentence naming the \<^emph>\<open>Year\<close>: the unit name is chosen by
  comparing the step, not the unit, with \<open>'M'\<close>. The claim requires the sentence to name
  the Month for month-unit frequencies.
\<close>

theorem month_unit_names_year:
  assumes "fst (check_continuous_time_column df c ''M'' step) = Inr False"
  shows "fst (assert_continuous_time_column df c ''M'' step)
           = Inl (ValueError (continuity_message c ''M'' step @ period_end_message ''Year''))"
proof -
  have "step \<noteq> PyStr ''M''"
  proof
    assume s: "step = PyStr ''M''"
    have "to_offset (PyStr ''M'') ''M'' = Inl (NotModelled ''MM'')"
      by (simp add: to_offset_def digit_value_def)
    then have "fst (check_continuous_time_column df c ''M'' (PyStr ''M'')) \<noteq> Inr False"
      unfolding check_continuous_time_column_def
      by (auto simp: Let_def split: sum.splits)
    with assms s show False by simp
  qed
  with assms show ?thesis
    unfolding assert_continuous_time_column_def
    by (cases "check_continuous_time_column df c ''M'' step") (auto simp: Let_def)
qed

text \<open>
  The failing input: a monthly frame dated 2020-01-15 and 2020-02-15 fails validation at
  frequency \<open>1M\<close> and the message says that timestamps must be end of Year.
\<close>

theorem month_unit_names_year_witness:
  "fst (check_continuous_time_column (example_frame [1579046400000000000, 1581724800000000000])
          ''date'' ''M'' (PyInt 1)) = Inr False \<and>
   fst (assert_continuous_time_column (example_frame [1579046400000000000, 1581724800000000000])
          ''date'' ''M'' (PyInt 1))
     = Inl (ValueError (''Time column date doesn'' @ [CHR 0x27]
              @ ''t have regular time intervals of frequency 1M.''
              @ ''For Year frequency, timestamps must be end of Year (for e.g. ''
              @ [CHR 0x27] @ ''2020-12-31 00:00:00'' @ [CHR 0x27] @ '')''))"
proof -
  have chk: "fst (check_continuous_time_column
                    (example_frame [1579046400000000000, 1581724800000000000])
                    ''date'' ''M'' (PyInt 1)) = Inr False"
    by code_simp
  show ?thesis
    using chk month_unit_names_year [OF chk]
    by (simp add: continuity_message_def period_end_message_def str_int_def str_nat.simps
          digit_char_def)
qed

text \<open>The month ends of January to March 2020 pass validation at frequency \<open>1M\<close>.\<close>

lemma month_end_grid_accepted:
  "fst (check_continuous_time_column
          (example_frame [1580428800000000000, 1582934400000000000, 1585612800000000000])
          ''date'' ''M'' (PyInt 1)) = Inr True"
  by code_simp

section \<open>Verified properties: dataset builder\<close>

lemma slice_to_negative:
  "0 < k \<Longrightarrow> slice_to (Some (- k)) xs = take (length xs - nat k) xs"
  by (simp add: nat_diff_distrib')

lemma sequence_sum_map_sum:
  "sequence_sum (map (\<lambda>x. map_sum id g (f x)) xs) = map_sum id (map g) (sequence_sum (map f xs))"
  by (induction xs) (auto split: sum.splits)

lemma sequence_sum_nth:
  "sequence_sum (map f xs) = Inr ys \<Longrightarrow>
     length ys = length xs \<and> (\<forall>i < length xs. f (xs ! i) = Inr (ys ! i))"
proof (induction xs arbitrary: ys)
  case Nil
  then show ?case by simp
next
  case (Cons x xs)
  from Cons.prems obtain y ys' where y: "f x = Inr y" and ys': "sequence_sum (map f xs) = Inr ys'"
    and ys: "ys = y # ys'"
    by (auto split: sum.splits)
  from Cons.IH [OF ys'] y ys show ?case
    by (auto simp: nth_Cons split: nat.splits)
qed

lemma univariate_cut:
  assumes "0 < k"
  shows "create_gluon_univariate_timeseries self df t (Some (- k)) ids
           = map_sum id (drop_last_steps (nat k))
               (create_gluon_univariate_timeseries self df t None ids)"
proof -
  have s: "slice_to (Some (- k)) = (\<lambda>xs. take (length xs - nat k) xs)"
    using slice_to_negative [OF assms] by blast
  have n: "slice_to None = (\<lambda>xs. xs)"
    by (rule ext) simp
  show ?thesis
    unfolding create_gluon_univariate_timeseries_def drop_last_steps_def s n
    by (auto simp: option.map_comp comp_def option.map_ident split: sum.splits option.splits)
qed

lemma multivariate_cut:
  assumes "0 < k"
  shows "create_gluon_multivariate_timeseries self df (Some (- k)) ids
           = map_sum id (map (drop_last_steps (nat k)))
               (create_gluon_multivariate_timeseries self df None ids)"
  unfolding create_gluon_multivariate_timeseries_def univariate_cut [OF assms]
  by (rule sequence_sum_map_sum)

lemma loop_cut:
  assumes "0 < k"
  shows "create_list_dataset_loop v self (Some (- k)) i sd p groups
           = map_sum id (map (drop_last_steps (nat k)))
               (create_list_dataset_loop v self None i sd p groups)"
proof (induction groups arbitrary: i sd p)
  case Nil
  then show ?case by simp
next
  case (Cons g groups)
  obtain key gdf where g: "g = (key, gdf)" by (cases g)
  show ?case
    unfolding g
    by (simp add: multivariate_cut [OF assms] Cons.IH split: sum.splits prod.splits)
qed

lemma dataset_cut:
  assumes "0 < k"
  shows "create_list_dataset v self (Some k)
           = (case create_list_dataset v self None of
                Inl e \<Rightarrow> Inl e
              | Inr ds \<Rightarrow> Inr (ds \<lparr> list_data := map (drop_last_steps (nat k)) (list_data ds) \<rparr>))"
  using assms unfolding create_list_dataset_def
  by (simp add: multivariate_cut [OF assms] loop_cut [OF assms] split: sum.splits)

lemma uncut_target_is_column:
  "create_gluon_univariate_timeseries self df t None ids = Inr r \<Longrightarrow>
     get_column df t = Inr (ts_target r)"
  unfolding create_gluon_univariate_timeseries_def
  by (auto split: sum.splits)

text \<open>
  Claim C8. Whenever the table can be built into records at all (the build without
  \<open>cut_length\<close> returns), the build with any \<open>cut_length\<close> \<open>k > 0\<close> returns too, with the
  same records in the same order, each without its last \<open>k\<close> steps: its target is the
  first \<open>n - k\<close> values of the uncut target and every feature row is cut the same way, so a
  record of length \<open>k\<close> has an empty target. Without identifier columns the uncut target
  is the target column of the table.
\<close>

theorem cut_length_truncates:
  assumes k: "0 < k" and full: "create_list_dataset v self None = Inr full"
  shows "\<exists>cut. create_list_dataset v self (Some k) = Inr cut \<and>
           freq cut = freq full \<and>
           list_data cut = map (drop_last_steps (nat k)) (list_data full) \<and>
           (\<forall>r \<in> set (list_data full).
              ts_target (drop_last_steps (nat k) r)
                = take (length (ts_target r) - nat k) (ts_target r) \<and>
              ts_feat_dynamic_real (drop_last_steps (nat k) r)
                = map_option (map (\<lambda>row. take (length row - nat k) row)) (ts_feat_dynamic_real r) \<and>
              (int (length (ts_target r)) = k \<longrightarrow> ts_target (drop_last_steps (nat k) r) = [])) \<and>
           (\<not> truthy_list (gd_timeseries_identifiers_names self) \<longrightarrow>
              length (list_data full) = length (gd_target_columns_names self) \<and>
              (\<forall>i < length (gd_target_columns_names self).
                 get_column (gd_dataframe self) (gd_target_columns_names self ! i)
                   = Inr (ts_target (list_data full ! i))))"
proof -
  let ?cut = "full \<lparr> list_data := map (drop_last_steps (nat k)) (list_data full) \<rparr>"
  have c: "create_list_dataset v self (Some k) = Inr ?cut"
    using dataset_cut [OF k, of v self] full by simp
  have src: "length (list_data full) = length (gd_target_columns_names self) \<and>
              (\<forall>i < length (gd_target_columns_names self).
                 get_column (gd_dataframe self) (gd_target_columns_names self ! i)
                   = Inr (ts_target (list_data full ! i)))"
    if nt: "\<not> truthy_list (gd_timeseries_identifiers_names self)"
  proof -
    from full nt have "create_gluon_multivariate_timeseries self (gd_dataframe self) None None
                         = Inr (list_data full)"
      unfolding create_list_dataset_def by (auto split: sum.splits)
    from sequence_sum_nth [OF this [unfolded create_gluon_multivariate_timeseries_def]]
    show ?thesis by (auto dest: uncut_target_is_column)
  qed
  show ?thesis
    using c src by (intro exI [of _ ?cut]) (auto simp: drop_last_steps_def)
qed

theorem cut_length_truncates_witness:
  "create_list_dataset accept_all example_builder (Some 3)
     = Inr \<lparr> list_data =
               [\<lparr> ts_start = Time 0, ts_target = [], ts_target_name = ''sales'',
                   ts_time_column_name = ''date'', ts_feat_dynamic_real = Some [[]],
                   ts_feat_dynamic_real_columns_names = Some [''price''],
                   ts_identifiers = Some [(''store'', Str ''a'')] \<rparr>,
                \<lparr> ts_start = Time 0, ts_target = [], ts_target_name = ''sales'',
                   ts_time_column_name = ''date'', ts_feat_dynamic_real = Some [[]],
                   ts_feat_dynamic_real_columns_names = Some [''price''],
                   ts_identifiers = Some [(''store'', Str ''b'')] \<rparr>],
             freq = ''1D'' \<rparr>"
proof -
  have full: "create_list_dataset accept_all example_builder None
     = Inr \<lparr> list_data =
               [\<lparr> ts_start = Time 0, ts_target = [Float 20, Float 21, Float 22],
                   ts_target_name = ''sales'',
                   ts_time_column_name = ''date'',
                   ts_feat_dynamic_real = Some [[Float 2, Float 4, Float 6]],
                   ts_feat_dynamic_real_columns_names = Some [''price''],
                   ts_identifiers = Some [(''store'', Str ''a'')] \<rparr>,
                \<lparr> ts_start = Time 0, ts_target = [Float 10, Float 11, Float 12],
                   ts_target_name = ''sales'',
                   ts_time_column_name = ''date'',
                   ts_feat_dynamic_real = Some [[Float 1, Float 3, Float 5]],
                   ts_feat_dynamic_real_columns_names = Some [''price''],
                   ts_identifiers = Some [(''store'', Str ''b'')] \<rparr>],
             freq = ''1D'' \<rparr>"
    by code_simp
  have k: "(0::int) < 3" by simp
  from cut_length_truncates [OF k full] show ?thesis
    by (auto simp: drop_last_steps_def)
qed

section \<open>Verified properties: external feature aligner\<close>





section \<open>Verified properties: history merge\<close>

lemma merge_left_rows:
  assumes "merge_left left right keys = Inr merged"
  shows "rows merged =
           concat (map (\<lambda>l.
             (case filter (\<lambda>r. key_of right keys r = key_of left keys l) (rows right) of
                [] \<Rightarrow> [l @ replicate (length (filter (\<lambda>c. c \<notin> set keys) (columns right))) NaN
                          @ [Str ''left_only'']]
              | matches \<Rightarrow> map (\<lambda>r. l @ other_cells right keys r @ [Str ''both'']) matches))
             (rows left))"
  using assms by (auto simp: merge_left_def Let_def split: if_splits)

lemma merge_left_matched:
  assumes m: "merge_left left right keys = Inr merged"
    and l: "l \<in> set (rows left)" and r: "r \<in> set (rows right)"
    and k: "key_of left keys l = key_of right keys r"
  shows "l @ other_cells right keys r @ [Str ''both''] \<in> set (rows merged)"
proof -
  let ?ms = "filter (\<lambda>r. key_of right keys r = key_of left keys l) (rows right)"
  have rin: "r \<in> set ?ms" using r k by simp
  then obtain x xs where ms: "?ms = x # xs" by (cases ?ms) auto
  have "l @ other_cells right keys r @ [Str ''both'']
          \<in> set (map (\<lambda>r. l @ other_cells right keys r @ [Str ''both'']) ?ms)"
    using rin by (simp only: set_map) blast
  then show ?thesis
    unfolding merge_left_rows [OF m] using l ms
    by (simp only: set_concat set_map) (force simp: ms)
qed

lemma merge_left_origin:
  assumes m: "merge_left left right keys = Inr merged"
    and row: "row \<in> set (rows merged)"
  shows "\<exists>l \<in> set (rows left).
           (row = l @ replicate (length (filter (\<lambda>c. c \<notin> set keys) (columns right))) NaN
                    @ [Str ''left_only''] \<and>
            (\<forall>r \<in> set (rows right). key_of right keys r \<noteq> key_of left keys l)) \<or>
           (\<exists>r \<in> set (rows right). key_of right keys r = key_of left keys l \<and>
              row = l @ other_cells right keys r @ [Str ''both''])"
proof -
  from row obtain l where l: "l \<in> set (rows left)"
    and rl: "row \<in> set (case filter (\<lambda>r. key_of right keys r = key_of left keys l) (rows right) of
                [] \<Rightarrow> [l @ replicate (length (filter (\<lambda>c. c \<notin> set keys) (columns right))) NaN
                          @ [Str ''left_only'']]
              | matches \<Rightarrow> map (\<lambda>r. l @ other_cells right keys r @ [Str ''both'']) matches)"
    unfolding merge_left_rows [OF m] by auto
  let ?ms = "filter (\<lambda>r. key_of right keys r = key_of left keys l) (rows right)"
  show ?thesis
  proof (cases ?ms)
    case Nil
    then have "\<forall>r \<in> set (rows right). key_of right keys r \<noteq> key_of left keys l"
      by (simp add: filter_empty_conv)
    moreover have "row = l @ replicate (length (filter (\<lambda>c. c \<notin> set keys) (columns right))) NaN
                      @ [Str ''left_only'']"
      using rl Nil by simp
    ultimately show ?thesis using l by blast
  next
    case (Cons x xs)
    then have "row \<in> set (map (\<lambda>r. l @ other_cells right keys r @ [Str ''both'']) ?ms)"
      using rl by simp
    then obtain r where "r \<in> set ?ms" and "row = l @ other_cells right keys r @ [Str ''both'']"
      by auto
    then show ?thesis using l by auto
  qed
qed

lemma merge_left_keeps_left:
  assumes m: "merge_left left right keys = Inr merged"
    and l: "l \<in> set (rows left)"
  shows "\<exists>row \<in> set (rows merged). take (length l) row = l"
proof -
  let ?ms = "filter (\<lambda>r. key_of right keys r = key_of left keys l) (rows right)"
  let ?out = "case ?ms of
                [] \<Rightarrow> [l @ replicate (length (filter (\<lambda>c. c \<notin> set keys) (columns right))) NaN
                          @ [Str ''left_only'']]
              | matches \<Rightarrow> map (\<lambda>r. l @ other_cells right keys r @ [Str ''both'']) matches"
  have sub: "set ?out \<subseteq> set (rows merged)"
    unfolding merge_left_rows [OF m] using l by auto
  have "\<exists>row \<in> set ?out. take (length l) row = l"
    by (cases ?ms) auto
  with sub show ?thesis by blast
qed

text \<open>
  Claim C4, as the code has it. The merge is a left join from the history table: every
  row of the history table is retained in the result of \<open>_include_history\<close>; a forecast
  row is joined, marked \<open>both\<close>, to every history row with the same timestamp and
  identifier values; and every row of the result is a history row, either joined with a
  forecast row of the same key or filled with missing values and marked \<open>left_only\<close>. A
  forecast row whose key no history row has is therefore in no row of the result.
\<close>

theorem include_history_left_join:
  assumes h: "history_dataframe self frequency = Inr history_df"
    and f: "tm_forecasts_df self = Some forecasts"
    and ids: "tm_identifiers_columns self = Some identifiers"
    and m: "TrainedModel_include_history self frequency = Inr merged"
  shows "(\<forall>l \<in> set (rows history_df). \<exists>row \<in> set (rows merged). take (length l) row = l) \<and>
         (\<forall>r \<in> set (rows forecasts). \<forall>l \<in> set (rows history_df).
            key_of history_df (''index'' # identifiers) l = key_of forecasts (''index'' # identifiers) r
            \<longrightarrow> l @ other_cells forecasts (''index'' # identifiers) r @ [Str ''both'']
                  \<in> set (rows merged)) \<and>
         (\<forall>row \<in> set (rows merged). \<exists>l \<in> set (rows history_df).
            (row = l @ replicate (length (filter (\<lambda>c. c \<notin> set (''index'' # identifiers))
                                            (columns forecasts))) NaN @ [Str ''left_only''] \<and>
             (\<forall>r \<in> set (rows forecasts).
                key_of forecasts (''index'' # identifiers) r
                  \<noteq> key_of history_df (''index'' # identifiers) l)) \<or>
            (\<exists>r \<in> set (rows forecasts).
               key_of forecasts (''index'' # identifiers) r
                 = key_of history_df (''index'' # identifiers) l \<and>
               row = l @ other_cells forecasts (''index'' # identifiers) r @ [Str ''both'']))"
proof -
  have ml: "merge_left history_df forecasts (''index'' # identifiers) = Inr merged"
    using m by (simp add: TrainedModel_include_history_def h f ids)
  show ?thesis
    using merge_left_keeps_left [OF ml] merge_left_matched [OF ml] merge_left_origin [OF ml]
    by blast
qed

theorem include_history_left_join_witness:
  "history_dataframe example_history_model ''1D''
     = Inr \<lparr> columns = [''index'', ''sales''],
             rows = [[Time 0, Float 1], [Time 86400000000000, Float 2],
                     [Time 172800000000000, NaN]] \<rparr> \<and>
   (\<exists>merged. TrainedModel_include_history example_history_model ''1D'' = Inr merged \<and>
      [Time 0, Float 1] \<in> set (map (take 2) (rows merged)) \<and>
      [Time 86400000000000, Float 2] \<in> set (map (take 2) (rows merged)) \<and>
      [Time 172800000000000, NaN] \<in> set (map (take 2) (rows merged)) \<and>
      [Time 172800000000000, NaN, Float 5, Str ''both''] \<in> set (rows merged))"
proof -
  have h: "history_dataframe example_history_model ''1D''
             = Inr \<lparr> columns = [''index'', ''sales''],
                     rows = [[Time 0, Float 1], [Time 86400000000000, Float 2],
                             [Time 172800000000000, NaN]] \<rparr>"
    by code_simp
  have f: "tm_forecasts_df example_history_model
             = Some \<lparr> columns = [''index'', ''forecast_sales''],
                      rows = [[Time 172800000000000, Float 5],
                              [Time 259200000000000, Float 6]] \<rparr>"
    by (simp add: example_history_model_def)
  have ids: "tm_identifiers_columns example_history_model = Some []"
    by (simp add: example_history_model_def)
  obtain merged where m: "TrainedModel_include_history example_history_model ''1D'' = Inr merged"
    by (simp add: TrainedModel_include_history_def h f ids merge_left_def Let_def)
  have k: "key_of \<lparr> columns = [''index'', ''sales''],
                     rows = [[Time 0, Float 1], [Time 86400000000000, Float 2],
                             [Time 172800000000000, NaN]] \<rparr> [''index'']
             [Time 172800000000000, NaN]
           = key_of \<lparr> columns = [''index'', ''forecast_sales''],
                      rows = [[Time 172800000000000, Float 5],
                              [Time 259200000000000, Float 6]] \<rparr> [''index'']
             [Time 172800000000000, Float 5]"
    by (simp add: key_of_def)
  from include_history_left_join [OF h f ids m] k
  have "(\<forall>l \<in> set [[Time 0, Float 1], [Time 86400000000000, Float 2],
                     [Time 172800000000000, NaN]].
           \<exists>row \<in> set (rows merged). take (length l) row = l) \<and>
        [Time 172800000000000, NaN, Float 5, Str ''both''] \<in> set (rows merged)"
    by (simp add: other_cells_def)
  then have t: "\<And>l. l \<in> set [[Time 0, Float 1], [Time 86400000000000, Float 2],
                              [Time 172800000000000, NaN]] \<Longrightarrow>
                    length l = 2 \<Longrightarrow> l \<in> set (map (take 2) (rows merged))"
    and b: "[Time 172800000000000, NaN, Float 5, Str ''both''] \<in> set (rows merged)"
    by (force simp only: set_map image_iff)+
  have "[Time 0, Float 1] \<in> set (map (take 2) (rows merged))"
    by (rule t) simp_all
  moreover have "[Time 86400000000000, Float 2] \<in> set (map (take 2) (rows merged))"
    by (rule t) simp_all
  moreover have "[Time 172800000000000, NaN] \<in> set (map (take 2) (rows merged))"
    by (rule t) simp_all
  ultimately show ?thesis using h m b by blast
qed

text \<open>
  Counterexample to claim C4 as stated: a forecast row dated after the end of the history
  table is in the forecast table and in no row of the merged table.
\<close>

theorem forecast_row_without_history_dropped:
  "[Time 259200000000000, Float 6]
     \<in> set (rows (the (tm_forecasts_df example_history_model))) \<and>
   TrainedModel_include_history example_history_model ''1D''
     = Inr \<lparr> columns = [''index'', ''sales'', ''forecast_sales'', ''_merge''],
             rows = [[Time 0, Float 1, NaN, Str ''left_only''],
                     [Time 86400000000000, Float 2, NaN, Str ''left_only''],
                     [Time 172800000000000, NaN, Float 5, Str ''both'']] \<rparr> \<and>
   Time 259200000000000
     \<notin> set (map hd [[Time 0, Float 1, NaN, Str ''left_only''],
                     [Time 86400000000000, Float 2, NaN, Str ''left_only''],
                     [Time 172800000000000, NaN, Float 5, Str ''both'']])"
  by code_simp

end
